theory Spec2Isabelle
  imports Complex_Main "HOL-Library.Multiset" "HOL-Library.Sublist"
begin

section \<open>Numbers\<close>

text \<open>
  The scripts compute with Python floats, which are IEEE binary64 numbers. A float is
  written here as the rational number it denotes, and every operation on floats is the
  exact operation followed by \<open>fl\<close>, the rounding to the nearest binary64 number, a tie
  going to the even significand. The significand has 53 bits and the exponent of the
  last place is at least -1074, so the subnormal numbers are covered. Overflow to
  infinity is not: it needs a magnitude of \<open>2 ^ 1024\<close>, and the numbers of these scripts
  are minutes and hours between two datetimes.

  \<open>n.bit_length()\<close> for an integer that is not negative:
\<close>

function bit_length :: "int \<Rightarrow> int" where
  "bit_length n = (if n \<le> 0 then 0 else 1 + bit_length (n div 2))"
  by pat_completeness auto
termination
  by (relation "measure nat") auto

definition pow2 :: "int \<Rightarrow> rat" where
  "pow2 k = (if 0 \<le> k then 2 ^ nat k else 1 / 2 ^ nat (- k))"

text \<open>
  For a positive rational \<open>x\<close>, the integer \<open>e\<close> with \<open>2 ^ e \<le> x < 2 ^ (e + 1)\<close>: the
  difference of the bit lengths of numerator and denominator, or one less.
\<close>

definition floor_log2 :: "rat \<Rightarrow> int" where
  "floor_log2 x =
     (let d = bit_length (fst (quotient_of x)) - bit_length (snd (quotient_of x))
      in if pow2 d \<le> x then d else d - 1)"

text \<open>The nearest integer, a tie going to the even one.\<close>

definition round_half_even :: "rat \<Rightarrow> int" where
  "round_half_even x =
     (let f = \<lfloor>x\<rfloor>; d = x - of_int f in
      if d < 1 / 2 then f
      else if 1 / 2 < d then f + 1
      else if even f then f else f + 1)"

text \<open>
  The nearest binary64 number: with \<open>2 ^ e \<le> \<bar>x\<bar> < 2 ^ (e + 1)\<close> and \<open>e\<close> not below
  -1022, the multiples of \<open>2 ^ (e - 52)\<close> are the floats around \<open>x\<close>.
\<close>

definition fl :: "rat \<Rightarrow> rat" where
  "fl x =
     (if x = 0 then 0
      else let e = max (floor_log2 \<bar>x\<bar>) (- 1022);
               q = pow2 (e - 52)
           in of_int (round_half_even (x / q)) * q)"

text \<open>
  \<open>x + y\<close>, \<open>x * y\<close> and \<open>x / y\<close> on floats; an \<open>int\<close> operand is converted first, which
  changes nothing below \<open>2 ^ 53\<close>. The true division of two integers rounds the exact
  quotient in the same way.
\<close>

definition fadd :: "rat \<Rightarrow> rat \<Rightarrow> rat" where
  "fadd x y = fl (x + y)"

definition fmul :: "rat \<Rightarrow> rat \<Rightarrow> rat" where
  "fmul x y = fl (x * y)"

definition fdiv :: "rat \<Rightarrow> rat \<Rightarrow> rat" where
  "fdiv x y = fl (x / y)"

text \<open>
  \<open>round(x, n)\<close> on a float: the decimal with \<open>n\<close> places nearest to the exact value of
  \<open>x\<close>, a tie going to the even last digit, and then the float nearest to that decimal.
  \<open>round(x)\<close> is \<open>round_half_even\<close>.
\<close>

definition py_round :: "rat \<Rightarrow> nat \<Rightarrow> rat" where
  "py_round x ndigits = fl (of_int (round_half_even (x * 10 ^ ndigits)) / 10 ^ ndigits)"


section \<open>estimate\_pr\_time.py: the commit-session estimator\<close>

text \<open>
  A commit as \<open>fetch_pr_commits\<close> builds it. The timestamp is a timezone-aware
  datetime; sorting and subtraction of aware datetimes work on the instant, so it is
  kept as the number of microseconds since the epoch.
\<close>

record commit =
  sha :: string
  timestamp :: int
  author :: string
  message :: string

text \<open>
  The dictionary the estimators return. \<open>estimate_time_from_commits\<close> sets the first
  three keys only; the keys \<open>method\<close> (here \<open>est_method\<close>) and \<open>confidence\<close> are absent there
  (\<open>None\<close>).
\<close>

record estimate =
  estimated_hours :: rat
  sessions :: nat
  commits :: nat
  est_method :: "string option"
  confidence :: "string option"

definition MAX_COMMIT_DIFF_MINUTES :: rat where
  "MAX_COMMIT_DIFF_MINUTES = 120"

definition FIRST_COMMIT_BUFFER_MINUTES :: rat where
  "FIRST_COMMIT_BUFFER_MINUTES = 120"

text \<open>
  \<open>(b - a).total_seconds() / 60\<close> for two instants in microseconds: \<open>total_seconds()\<close>
  is the true division of the microseconds by \<open>10 ** 6\<close>.
\<close>

definition diff_minutes :: "int \<Rightarrow> int \<Rightarrow> rat" where
  "diff_minutes b a = fdiv (fdiv (of_int (b - a)) 1000000) 60"

text \<open>
  One turn of the loop \<open>for i in range(1, len(commits))\<close>, on the state
  \<open>(total_minutes, sessions)\<close>. The index \<open>i\<close> runs from 1 below the length, so both
  \<open>commits[i]\<close> and \<open>commits[i-1]\<close> are in range. \<open>total_minutes\<close> is the integer 120
  until the first gap is added and a float from then on; a sum of integers below
  \<open>2 ^ 53\<close> is the same in both.
\<close>

definition session_step :: "commit list \<Rightarrow> nat \<Rightarrow> rat \<times> nat \<Rightarrow> rat \<times> nat" where
  "session_step cs i st =
     (let d = diff_minutes (timestamp (cs ! i)) (timestamp (cs ! (i - 1))) in
      if d \<le> MAX_COMMIT_DIFF_MINUTES
      then (fadd (fst st) d, snd st)
      else (fadd (fst st) FIRST_COMMIT_BUFFER_MINUTES, snd st + 1))"

definition estimate_time_from_commits :: "commit list \<Rightarrow> estimate" where
  "estimate_time_from_commits cs =
     (if cs = [] then
        \<lparr>estimated_hours = 0, sessions = 0, commits = 0, est_method = None, confidence = None\<rparr>
      else
        let sorted_cs = sort_key timestamp cs;
            st = fold (session_step sorted_cs) [1..<length sorted_cs]
                   (0 + FIRST_COMMIT_BUFFER_MINUTES, 1)
        in \<lparr>estimated_hours = py_round (fdiv (fst st) 60) 1,
            sessions = snd st,
            commits = length sorted_cs,
            est_method = None, confidence = None\<rparr>)"


subsection \<open>The algorithm as the specification words it\<close>

text \<open>
  Sort ascending; start with one buffer and one session if the list is non-empty;
  walk the consecutive pairs, a gap of at most \<open>maxGapMinutes\<close> adding the gap, a
  larger one opening a session and adding a buffer; report the minutes over 60 rounded
  to one decimal. The gap of two timestamps is their distance in seconds over 60, and
  all numbers are floats.
\<close>

definition spec_gap_minutes :: "int \<Rightarrow> int \<Rightarrow> rat" where
  "spec_gap_minutes a b = fl (fl (of_int (b - a) / 1000000) / 60)"

definition spec_round1 :: "rat \<Rightarrow> rat" where
  "spec_round1 x = fl (of_int (round_half_even (10 * x)) / 10)"

fun spec_cluster :: "rat \<Rightarrow> rat \<Rightarrow> int list \<Rightarrow> rat \<times> nat \<Rightarrow> rat \<times> nat" where
  "spec_cluster maxGap buffer (a # b # ts) (totalMinutes, n) =
     (if spec_gap_minutes a b \<le> maxGap
      then spec_cluster maxGap buffer (b # ts) (fl (totalMinutes + spec_gap_minutes a b), n)
      else spec_cluster maxGap buffer (b # ts) (fl (totalMinutes + buffer), n + 1))"
| "spec_cluster maxGap buffer ts st = st"

definition spec_session_estimate :: "rat \<Rightarrow> rat \<Rightarrow> int list \<Rightarrow> rat \<times> nat \<times> nat" where
  "spec_session_estimate maxGap buffer ts =
     (if ts = [] then (0, 0, 0)
      else let st = spec_cluster maxGap buffer (sort ts) (buffer, 1)
           in (spec_round1 (fl (fst st / 60)), snd st, length ts))"


section \<open>get\_completed\_issues\_with\_time.py: business hours\<close>

text \<open>
  A timezone-aware \<open>datetime\<close>. \<open>wall\<close> is the wall-clock reading: the number of
  microseconds from midnight of proleptic ordinal day 0 to the local date and time the
  object shows, so that \<open>wall div 86400000000\<close> is \<open>date().toordinal()\<close>.
  \<open>utcoffset\<close> is the offset of its \<open>tzinfo\<close> east of UTC, in microseconds
  (\<open>pytz\<close> attaches a fixed offset to each object: -8 h for PST, -7 h for PDT).
  Python's upper limit on dates (year 9999) is not part of the model.
\<close>

record datetime =
  wall :: int
  utcoffset :: int

definition US_PER_HOUR :: int where
  "US_PER_HOUR = 3600000000"

definition US_PER_DAY :: int where
  "US_PER_DAY = 86400000000"

text \<open>\<open>dt.date()\<close>, as the ordinal of the local calendar day.\<close>

definition date :: "datetime \<Rightarrow> int" where
  "date dt = wall dt div US_PER_DAY"

text \<open>\<open>dt.hour\<close>.\<close>

definition hour :: "datetime \<Rightarrow> int" where
  "hour dt = (wall dt mod US_PER_DAY) div US_PER_HOUR"

text \<open>\<open>dt.weekday()\<close>: Monday is 0; ordinal day 1 (0001-01-01) is a Monday.\<close>

definition weekday :: "datetime \<Rightarrow> int" where
  "weekday dt = (date dt + 6) mod 7"

text \<open>
  \<open>dt.replace(hour=h, minute=m, second=s, microsecond=us)\<close>: same day, same
  \<open>tzinfo\<close>, new time of day.
\<close>

definition replace_time :: "datetime \<Rightarrow> int \<Rightarrow> int \<Rightarrow> int \<Rightarrow> int \<Rightarrow> datetime" where
  "replace_time dt h m s us =
     dt\<lparr>wall := date dt * US_PER_DAY + h * US_PER_HOUR + m * 60000000 + s * 1000000 + us\<rparr>"

text \<open>\<open>dt + timedelta(days=1)\<close>: wall-clock arithmetic, the \<open>tzinfo\<close> is kept.\<close>

definition plus_one_day :: "datetime \<Rightarrow> datetime" where
  "plus_one_day dt = dt\<lparr>wall := wall dt + US_PER_DAY\<rparr>"

text \<open>
  Aware datetimes are compared, and subtracted, as instants: wall clock minus offset.
  \<open>max(a, b)\<close> and \<open>min(a, b)\<close> of Python return \<open>a\<close> unless \<open>b\<close> is strictly
  greater, respectively smaller.
\<close>

definition instant :: "datetime \<Rightarrow> int" where
  "instant dt = wall dt - utcoffset dt"

definition dt_less :: "datetime \<Rightarrow> datetime \<Rightarrow> bool" where
  "dt_less a b = (instant a < instant b)"

definition dt_max :: "datetime \<Rightarrow> datetime \<Rightarrow> datetime" where
  "dt_max a b = (if dt_less a b then b else a)"

definition dt_min :: "datetime \<Rightarrow> datetime \<Rightarrow> datetime" where
  "dt_min a b = (if dt_less b a then b else a)"

definition is_business_day :: "datetime \<Rightarrow> bool" where
  "is_business_day dt = (weekday dt < 5)"

definition get_business_hours_in_day :: "datetime \<Rightarrow> datetime \<times> datetime" where
  "get_business_hours_in_day dt =
     (let start = replace_time dt 7 0 0 0;
          end0 = replace_time dt 19 0 0 0;
          end1 = (if hour dt \<ge> 19 then replace_time dt 23 59 59 999999 else end0)
      in (start, end1))"

text \<open>
  The body of the \<open>while\<close> loop of \<open>calculate_business_hours\<close>, as the new value of
  \<open>total_hours\<close>; \<open>(day_end - day_start).total_seconds() / 3600\<close> divides the difference
  of the instants, in microseconds, by \<open>10 ** 6\<close> and then by 3600.
\<close>

definition day_step :: "datetime \<Rightarrow> datetime \<Rightarrow> datetime \<Rightarrow> rat \<Rightarrow> rat" where
  "day_step start_dt end_dt current_dt total_hours =
     (if is_business_day current_dt then
        let biz = get_business_hours_in_day current_dt;
            day_start = (if date current_dt = date start_dt
                         then dt_max current_dt (fst biz) else fst biz);
            day_end = (if date current_dt = date end_dt
                       then dt_min end_dt (snd biz) else snd biz)
        in if dt_less day_start day_end
           then fadd total_hours
                  (fdiv (fdiv (of_int (instant day_end - instant day_start)) 1000000) 3600)
           else total_hours
      else if date current_dt = date start_dt \<or> date current_dt = date end_dt
           then fadd total_hours 4
           else total_hours)"

text \<open>
  \<open>(current_dt + timedelta(days=1)).replace(hour=0, minute=0, second=0, microsecond=0)\<close>
\<close>

definition next_midnight :: "datetime \<Rightarrow> datetime" where
  "next_midnight current_dt = replace_time (plus_one_day current_dt) 0 0 0 0"

function business_loop :: "datetime \<Rightarrow> datetime \<Rightarrow> datetime \<Rightarrow> rat \<Rightarrow> rat" where
  "business_loop start_dt end_dt current_dt total_hours =
     (if date current_dt \<le> date end_dt
      then business_loop start_dt end_dt (next_midnight current_dt)
             (day_step start_dt end_dt current_dt total_hours)
      else total_hours)"
  by pat_completeness auto
termination
proof (relation "measure (\<lambda>(s, e, c, t). nat (date e + 1 - date c))")
  show "wf (measure (\<lambda>(s, e, c, t). nat (date e + 1 - date c)))"
    by simp
next
  fix start_dt end_dt current_dt :: datetime and total_hours :: rat
  assume "date current_dt \<le> date end_dt"
  moreover have "date (next_midnight current_dt) = date current_dt + 1"
    by (simp add: next_midnight_def replace_time_def plus_one_day_def date_def US_PER_DAY_def
          US_PER_HOUR_def)
  ultimately show "((start_dt, end_dt, next_midnight current_dt,
                     day_step start_dt end_dt current_dt total_hours),
                    (start_dt, end_dt, current_dt, total_hours))
                   \<in> measure (\<lambda>(s, e, c, t). nat (date e + 1 - date c))"
    by simp
qed

text \<open>
  \<open>calculate_business_hours\<close>. A missing argument is \<open>None\<close>; a \<open>datetime\<close> object
  is always true in a condition.
\<close>

definition calculate_business_hours :: "datetime option \<Rightarrow> datetime option \<Rightarrow> rat" where
  "calculate_business_hours start_opt end_opt =
     (case (start_opt, end_opt) of
        (Some s, Some e) \<Rightarrow>
          (let start_dt = (if dt_less e s then e else s);
               end_dt = (if dt_less e s then s else e)
           in business_loop start_dt end_dt start_dt 0)
      | _ \<Rightarrow> 0)"


section \<open>get\_completed\_issues\_with\_time.py: the timeline analyzer\<close>

text \<open>
  An event of the timeline or events feed, reduced to the keys the analyzer reads:
  \<open>event\<close>, \<open>type\<close>, \<open>created_at\<close> (already through \<open>parse_github_datetime\<close>, which
  gives \<open>None\<close> for a missing or empty string) and \<open>actor.login\<close>. An absent key is
  \<open>None\<close>. The issue likewise, with \<open>user.login\<close>.
\<close>

record event =
  ev_event :: "string option"
  ev_type :: "string option"
  ev_created_at :: "datetime option"
  ev_actor_login :: "string option"

record issue =
  created_at :: "datetime option"
  closed_at :: "datetime option"
  user_login :: "string option"

text \<open>
  The computed entries of the dictionary \<open>analyze_issue_timing\<close> returns; the other
  entries (number, title, assignee, labels, url, the two dates as ISO strings) are copied
  from the issue.
\<close>

record issue_timing =
  business_hours :: rat
  calendar_days :: int
  time_to_first_response_hours :: "rat option"
  time_to_assignment_hours :: "rat option"

text \<open>\<open>event.get('event', event.get('type'))\<close>\<close>

definition event_type :: "event \<Rightarrow> string option" where
  "event_type ev = (case ev_event ev of Some t \<Rightarrow> Some t | None \<Rightarrow> ev_type ev)"

text \<open>
  One turn of \<open>for event in all_events\<close> on the state
  \<open>(first_response, assigned_at, labeled_at)\<close>.
\<close>

definition event_step ::
  "issue \<Rightarrow> event \<Rightarrow> datetime option \<times> datetime option \<times> datetime option
     \<Rightarrow> datetime option \<times> datetime option \<times> datetime option" where
  "event_step iss ev st =
     (case st of (first_response, assigned_at, labeled_at) \<Rightarrow>
        let event_time = ev_created_at ev;
            first_response' =
              (if (event_type ev = Some ''commented'' \<or> event_type ev = Some ''comment'')
                  \<and> first_response = None
               then (if ev_actor_login ev \<noteq> user_login iss then event_time
                     else first_response)
               else first_response);
            assigned_at' =
              (if event_type ev = Some ''assigned'' \<and> assigned_at = None
               then event_time else assigned_at);
            labeled_at' =
              (if event_type ev = Some ''labeled'' \<and> labeled_at = None
               then event_time else labeled_at)
        in (first_response', assigned_at', labeled_at'))"

text \<open>
  \<open>round(x, 2) if x else None\<close>: the condition is the truth value of \<open>x\<close>, which is
  false for \<open>None\<close> and for the float zero.
\<close>

definition round_if_true :: "rat option \<Rightarrow> rat option" where
  "round_if_true x =
     (case x of None \<Rightarrow> None
      | Some h \<Rightarrow> if h = 0 then None else Some (py_round h 2))"

text \<open>
  The anchors the scan leaves behind, and the two metrics computed from them before
  the result dictionary is built (the variables \<open>time_to_first_response\<close> and
  \<open>time_to_assignment\<close> of the source).
\<close>

definition all_events :: "event list \<Rightarrow> event list \<Rightarrow> event list" where
  "all_events timeline events_feed =
     timeline @ (if timeline = [] then events_feed else [])"

definition key_events ::
  "issue \<Rightarrow> event list \<Rightarrow> datetime option \<times> datetime option \<times> datetime option" where
  "key_events iss evs = fold (event_step iss) evs (None, None, None)"

definition time_to :: "issue \<Rightarrow> datetime option \<Rightarrow> rat option" where
  "time_to iss anchor =
     (case anchor of None \<Rightarrow> None
      | Some r \<Rightarrow> Some (calculate_business_hours (created_at iss) (Some r)))"

text \<open>
  \<open>analyze_issue_timing\<close>, with the answers of the two fetches as arguments: the
  events feed is asked only when the timeline came back empty.
\<close>

definition analyze_issue_timing :: "issue \<Rightarrow> event list \<Rightarrow> event list \<Rightarrow> issue_timing" where
  "analyze_issue_timing iss timeline events_feed =
     (let hours = calculate_business_hours (created_at iss) (closed_at iss);
          days = (case (created_at iss, closed_at iss) of
                    (Some c, Some d) \<Rightarrow> (instant d - instant c) div US_PER_DAY
                  | _ \<Rightarrow> 0);
          st = key_events iss (all_events timeline events_feed);
          first_response = fst st;
          assigned_at = fst (snd st);
          time_to_first_response = time_to iss first_response;
          time_to_assignment = time_to iss assigned_at
      in \<lparr>business_hours = py_round hours 2,
          calendar_days = days,
          time_to_first_response_hours = round_if_true time_to_first_response,
          time_to_assignment_hours = round_if_true time_to_assignment\<rparr>)"


section \<open>estimate\_pr\_time\_fallback.py: the metadata estimator\<close>

definition DEFAULT_DEV_HOURS :: "(string \<times> (string \<times> int) list) list" where
  "DEFAULT_DEV_HOURS =
    [(''Feature'', [(''Small'', 12), (''Medium'', 20), (''Large'', 32)]),
     (''Bug_Fix'', [(''Small'', 4), (''Medium'', 8), (''Large'', 12)]),
     (''Enhancement'', [(''Small'', 6), (''Medium'', 10), (''Large'', 16)]),
     (''Infrastructure'', [(''Small'', 4), (''Medium'', 8), (''Large'', 16)]),
     (''Refactoring'', [(''Small'', 8), (''Medium'', 12), (''Large'', 20)]),
     (''Testing'', [(''Small'', 6), (''Medium'', 12), (''Large'', 24)]),
     (''UI_Enhancement'', [(''Small'', 4), (''Medium'', 8), (''Large'', 12)]),
     (''Documentation'', [(''Small'', 2), (''Medium'', 4), (''Large'', 8)]),
     (''Security'', [(''Small'', 4), (''Medium'', 8), (''Large'', 12)]),
     (''Performance'', [(''Small'', 6), (''Medium'', 10), (''Large'', 16)]),
     (''Database'', [(''Small'', 6), (''Medium'', 10), (''Large'', 16)]),
     (''Maintenance'', [(''Small'', 3), (''Medium'', 5), (''Large'', 8)]),
     (''Hotfix'', [(''Small'', 4), (''Medium'', 6), (''Large'', 10)]),
     (''Development'', [(''Small'', 6), (''Medium'', 10), (''Large'', 16)])]"

text \<open>\<open>d.get(k, default)\<close> on a dictionary written as its list of items.\<close>

definition dict_get :: "('k \<times> 'v) list \<Rightarrow> 'k \<Rightarrow> 'v \<Rightarrow> 'v" where
  "dict_get d k dflt = (case map_of d k of Some v \<Rightarrow> v | None \<Rightarrow> dflt)"

text \<open>
  The keys of a pull request the estimator reads; \<open>None\<close> is an absent key. A title
  is a string of 8-bit characters (code points below 256).
\<close>

record pr =
  category :: "string option"
  complexity :: "string option"
  title :: "string option"

text \<open>
  \<open>str.lower()\<close> on Latin-1: the letters A-Z and the accented capitals
  (192 to 222, but not the multiplication sign 215) move up by 32.
\<close>

definition lower_char :: "char \<Rightarrow> char" where
  "lower_char c =
     (let n = (of_char c :: nat) in
      if (65 \<le> n \<and> n \<le> 90) \<or> (192 \<le> n \<and> n \<le> 222 \<and> n \<noteq> 215)
      then char_of (n + 32) else c)"

definition lower :: "string \<Rightarrow> string" where
  "lower s = map lower_char s"

text \<open>\<open>needle in hay\<close> on strings: \<open>needle\<close> occurs as a contiguous piece.\<close>

fun contains :: "string \<Rightarrow> string \<Rightarrow> bool" where
  "contains needle [] = (needle = [])"
| "contains needle (c # cs) = (prefix needle (c # cs) \<or> contains needle cs)"

text \<open>
  The chain of \<open>if\<close> statements on \<open>multiplier\<close>, which starts at 1.0. A literal such
  as \<open>1.2\<close> is the float nearest to 12/10.
\<close>

definition title_multiplier :: "string \<Rightarrow> rat" where
  "title_multiplier t =
     (let m0 = 1;
          m1 = (if contains ''refactor'' t \<or> contains ''restructure'' t
                then fmul m0 (fl (12 / 10)) else m0);
          m2 = (if contains ''test'' t \<or> contains ''testing'' t
                then fmul m1 (fl (11 / 10)) else m1);
          m3 = (if contains ''fix'' t \<and> \<not> contains ''hotfix'' t
                then fmul m2 (fl (9 / 10)) else m2);
          m4 = (if contains ''update'' t \<or> contains ''enhance'' t
                then fmul m3 (fl (11 / 10)) else m3);
          m5 = (if contains ''mvp'' t then fmul m4 (fl (13 / 10)) else m4);
          m6 = (if contains ''working'' t \<or> contains ''mid'' t
                then fmul m5 (fl (7 / 10)) else m5)
      in m6)"

definition estimate_time_from_metadata :: "pr \<Rightarrow> estimate" where
  "estimate_time_from_metadata p =
     (let cat = (case category p of Some c \<Rightarrow> c | None \<Rightarrow> ''Maintenance'');
          cpx = (case complexity p of Some c \<Rightarrow> c | None \<Rightarrow> ''Small'');
          base_hours = dict_get
                         (dict_get DEFAULT_DEV_HOURS cat
                            (dict_get DEFAULT_DEV_HOURS ''Maintenance'' []))
                         cpx 6;
          t = lower (case title p of Some s \<Rightarrow> s | None \<Rightarrow> []);
          multiplier = title_multiplier t;
          hours = py_round (fmul (of_int base_hours) multiplier) 1;
          n_sessions = dict_get [(''Small'', 1), (''Medium'', 2), (''Large'', 3)] cpx (1::nat);
          r = round_half_even (fdiv hours 2);
          estimated_commits = (if r > 1 then r else 1)
      in \<lparr>estimated_hours = hours,
          sessions = n_sessions,
          commits = nat estimated_commits,
          est_method = Some ''metadata_based'',
          confidence = Some ''low''\<rparr>)"


subsection \<open>The fallback rule as the specification words it\<close>

text \<open>
  Base hours from the table, the default category for an unrecognised category and the
  default hour value for an unrecognised complexity; then the factors of all keyword
  rules that match the title without regard to case, multiplied on in the order of the
  list; rounded to one decimal. A rule is a list of keywords of which one must occur in
  the title, a list of keywords none of which may occur, and a factor; to occur is to
  be a contiguous piece of the title (\<open>sublist\<close>).
\<close>

definition spec_keyword_rules :: "(string list \<times> string list \<times> rat) list" where
  "spec_keyword_rules =
     [([''refactor'', ''restructure''], [], fl (12 / 10)),
      ([''test'', ''testing''], [], fl (11 / 10)),
      ([''fix''], [''hotfix''], fl (9 / 10)),
      ([''update'', ''enhance''], [], fl (11 / 10)),
      ([''mvp''], [], fl (13 / 10)),
      ([''working'', ''mid''], [], fl (7 / 10))]"

definition spec_rule_matches :: "string \<Rightarrow> string list \<times> string list \<times> rat \<Rightarrow> bool" where
  "spec_rule_matches ttl rule =
     (list_ex (\<lambda>k. sublist k (lower ttl)) (fst rule)
      \<and> \<not> list_ex (\<lambda>k. sublist k (lower ttl)) (fst (snd rule)))"

definition spec_base_hours :: "string \<Rightarrow> string \<Rightarrow> int" where
  "spec_base_hours cat cpx =
     (case map_of DEFAULT_DEV_HOURS cat of
        None \<Rightarrow> (case map_of DEFAULT_DEV_HOURS ''Maintenance'' of
                   None \<Rightarrow> 6
                 | Some row \<Rightarrow> (case map_of row cpx of None \<Rightarrow> 6 | Some h \<Rightarrow> h))
      | Some row \<Rightarrow> (case map_of row cpx of None \<Rightarrow> 6 | Some h \<Rightarrow> h))"

definition spec_metadata_hours :: "string \<Rightarrow> string \<Rightarrow> string \<Rightarrow> rat" where
  "spec_metadata_hours cat cpx ttl =
     spec_round1
       (fl (of_int (spec_base_hours cat cpx)
            * foldl (\<lambda>m rule. fl (m * snd (snd rule))) 1
                (filter (spec_rule_matches ttl) spec_keyword_rules)))"


section \<open>Notation for the statements\<close>

text \<open>
  The datetime that shows \<open>h\<close> o'clock sharp on the day of ordinal \<open>day\<close>, in a zone
  \<open>off\<close> hours east of UTC.
\<close>

definition local_time :: "int \<Rightarrow> int \<Rightarrow> int \<Rightarrow> datetime" where
  "local_time day h off =
     \<lparr>wall = day * US_PER_DAY + h * US_PER_HOUR, utcoffset = off * US_PER_HOUR\<rparr>"

text \<open>
  The value of \<open>current_dt\<close> when the loop of \<open>calculate_business_hours\<close> works on the
  day of ordinal \<open>d\<close>: \<open>start_dt\<close> itself on the first day, and midnight with the
  \<open>tzinfo\<close> of \<open>start_dt\<close> on every later day.
\<close>

definition current_at :: "datetime \<Rightarrow> int \<Rightarrow> datetime" where
  "current_at start_dt d =
     (if d = date start_dt then start_dt
      else \<lparr>wall = d * US_PER_DAY, utcoffset = utcoffset start_dt\<rparr>)"

text \<open>A commit with the timestamp \<open>t\<close> (microseconds since the epoch).\<close>

definition commit_at :: "int \<Rightarrow> commit" where
  "commit_at t = \<lparr>sha = ''c0ffee'', timestamp = t, author = ''dev'', message = ''work''\<rparr>"

text \<open>The result dictionary with the three keys of the commit-session estimator.\<close>

definition session_result :: "rat \<Rightarrow> nat \<Rightarrow> nat \<Rightarrow> estimate" where
  "session_result h s c =
     \<lparr>estimated_hours = h, sessions = s, commits = c, est_method = None, confidence = None\<rparr>"

text \<open>A pull request with all three keys present.\<close>

definition pr_of :: "string \<Rightarrow> string \<Rightarrow> string \<Rightarrow> pr" where
  "pr_of cat cpx ttl = \<lparr>category = Some cat, complexity = Some cpx, title = Some ttl\<rparr>"


section \<open>Properties of the float model\<close>

text \<open>\<open>bit_length\<close> counts the binary digits of a positive integer.\<close>

lemma bit_length_bounds:
  "0 < n \<Longrightarrow> \<exists>k. bit_length n = int k + 1 \<and> 2 ^ k \<le> n \<and> n < 2 ^ (k + 1)"
proof (induction n rule: bit_length.induct)
  case (1 n)
  have bl: "bit_length n = 1 + bit_length (n div 2)"
    using "1.prems" by (subst bit_length.simps) simp
  show ?case
  proof (cases "n = 1")
    case True
    have "bit_length (n div 2) = 0"
      using True by (subst bit_length.simps) simp
    then have "bit_length n = int 0 + 1 \<and> 2 ^ 0 \<le> n \<and> n < 2 ^ (0 + 1)"
      using bl True by simp
    then show ?thesis by blast
  next
    case False
    with "1.prems" have m: "0 < n div 2" by simp
    have "\<not> n \<le> 0" using "1.prems" by simp
    from "1.IH" [OF this m]
    obtain k where k: "bit_length (n div 2) = int k + 1" "2 ^ k \<le> n div 2"
      "n div 2 < 2 ^ (k + 1)"
      by blast
    define P :: int where "P = 2 ^ k"
    have P: "P \<le> n div 2" "n div 2 < 2 * P"
      using k(2,3) by (simp_all add: P_def)
    have "2 * P \<le> n" "n < 2 * (2 * P)"
      using P by presburger+
    then have "2 ^ (k + 1) \<le> n" "n < 2 ^ (k + 1 + 1)"
      by (simp_all add: P_def)
    moreover have "bit_length n = int (k + 1) + 1"
      using bl k(1) by simp
    ultimately show ?thesis by blast
  qed
qed

text \<open>
  Known binary64 values: 0.1 is \<open>3602879701896397 / 2 ^ 55\<close>; the quotient 129 / 60 is the
  float just below 2.15; \<open>2 ^ 53 + 1\<close> lies between two floats and goes to the even one;
  \<open>round(2.25, 1)\<close> is the float 2.2 and \<open>round(2.675, 2)\<close> is the float 2.67.
\<close>

lemma fl_tenth: "fl (1 / 10) = 3602879701896397 / 36028797018963968"
  by code_simp

lemma fl_below_2_15: "fdiv 129 60 = 4841369599423283 / 2251799813685248
                      \<and> fdiv 129 60 < 215 / 100"
  by code_simp

lemma fl_tie_even: "fl (9007199254740993) = 9007199254740992"
  by code_simp

lemma py_round_tie: "py_round (9 / 4) 1 = fl (22 / 10)"
  by code_simp

lemma py_round_2_675: "py_round (fl (2675 / 1000)) 2 = fl (267 / 100)"
  by code_simp


section \<open>Properties of the commit-session estimator\<close>

lemma session_step_Cons:
  "Suc 0 \<le> i \<Longrightarrow> session_step (a # cs) (Suc i) st = session_step cs i st"
  by (cases i) (simp_all add: session_step_def)

lemma upt_from_one: "[Suc 0..<Suc (Suc n)] = Suc 0 # map Suc [Suc 0..<Suc n]"
proof -
  have "[Suc 0..<Suc (Suc n)] = Suc 0 # [Suc (Suc 0)..<Suc (Suc n)]"
    by (rule upt_conv_Cons) simp
  then show ?thesis
    by (simp only: map_Suc_upt)
qed

lemma fold_session_step_Cons:
  "fold (session_step (a # cs)) (map Suc [Suc 0..<length cs]) st
   = fold (session_step cs) [Suc 0..<length cs] st"
proof -
  have "fold (session_step (a # cs)) (map Suc [Suc 0..<length cs]) st
        = fold (session_step (a # cs) \<circ> Suc) [Suc 0..<length cs] st"
    by (simp add: fold_map)
  also have "\<dots> = fold (session_step cs) [Suc 0..<length cs] st"
    by (rule fold_cong) (auto simp: session_step_Cons fun_eq_iff)
  finally show ?thesis .
qed

lemma session_step_first:
  "session_step (a # b # ts) (Suc 0) (t, n) =
     (if diff_minutes (timestamp b) (timestamp a) \<le> MAX_COMMIT_DIFF_MINUTES
      then (fadd t (diff_minutes (timestamp b) (timestamp a)), n)
      else (fadd t FIRST_COMMIT_BUFFER_MINUTES, n + 1))"
  by (simp add: session_step_def Let_def)

lemma diff_minutes_gap: "diff_minutes b a = spec_gap_minutes a b"
  by (simp add: diff_minutes_def spec_gap_minutes_def fdiv_def)

lemma py_round_one: "py_round x (Suc 0) = spec_round1 x"
  by (simp add: py_round_def spec_round1_def mult.commute)

text \<open>The indexed loop of the source walks the consecutive pairs of the list.\<close>

lemma fold_session_step_cluster:
  "fold (session_step cs) [Suc 0..<length cs] st
   = spec_cluster MAX_COMMIT_DIFF_MINUTES FIRST_COMMIT_BUFFER_MINUTES (map timestamp cs) st"
proof (induction cs arbitrary: st)
  case Nil
  then show ?case by simp
next
  case (Cons a cs)
  show ?case
  proof (cases cs)
    case Nil
    then show ?thesis by simp
  next
    case c: (Cons b ts)
    obtain t n where st: "st = (t, n)" by (cases st)
    have "fold (session_step (a # cs)) [Suc 0..<length (a # cs)] st
          = fold (session_step (a # cs)) (map Suc [Suc 0..<length cs])
              (session_step (a # cs) (Suc 0) st)"
      unfolding c by (simp add: upt_from_one del: upt_Suc)
    also have "\<dots> = fold (session_step cs) [Suc 0..<length cs]
                       (session_step (a # cs) (Suc 0) st)"
      by (rule fold_session_step_Cons)
    also have "\<dots> = spec_cluster MAX_COMMIT_DIFF_MINUTES FIRST_COMMIT_BUFFER_MINUTES
                       (map timestamp cs) (session_step (a # cs) (Suc 0) st)"
      by (rule Cons.IH)
    also have "\<dots> = spec_cluster MAX_COMMIT_DIFF_MINUTES FIRST_COMMIT_BUFFER_MINUTES
                       (map timestamp (a # cs)) st"
      unfolding c st session_step_first by (simp add: diff_minutes_gap fadd_def)
    finally show ?thesis .
  qed
qed

text \<open>Sorting the commits by their timestamp sorts the timestamps.\<close>

lemma map_timestamp_sort_key:
  "map timestamp (sort_key timestamp cs) = sort (map timestamp cs)"
  by (rule properties_for_sort [symmetric]) simp_all

lemma sorted_loop_cluster:
  "fold (session_step (sort_key timestamp cs)) [Suc 0..<length cs] st
   = spec_cluster MAX_COMMIT_DIFF_MINUTES FIRST_COMMIT_BUFFER_MINUTES
       (sort (map timestamp cs)) st"
  using fold_session_step_cluster [of "sort_key timestamp cs" st]
  unfolding map_timestamp_sort_key by simp

lemma estimate_time_from_commits_sorted:
  "estimate_time_from_commits cs =
     (if cs = [] then
        \<lparr>estimated_hours = 0, sessions = 0, commits = 0, est_method = None, confidence = None\<rparr>
      else
        \<lparr>estimated_hours =
           py_round (fdiv (fst (spec_cluster MAX_COMMIT_DIFF_MINUTES FIRST_COMMIT_BUFFER_MINUTES
                                  (sort (map timestamp cs)) (FIRST_COMMIT_BUFFER_MINUTES, 1))) 60) 1,
         sessions =
           snd (spec_cluster MAX_COMMIT_DIFF_MINUTES FIRST_COMMIT_BUFFER_MINUTES
                  (sort (map timestamp cs)) (FIRST_COMMIT_BUFFER_MINUTES, 1)),
         commits = length cs,
         est_method = None, confidence = None\<rparr>)"
  unfolding estimate_time_from_commits_def Let_def
  by (simp add: sorted_loop_cluster)

lemma spec_cluster_sessions:
  "ts \<noteq> [] \<Longrightarrow>
     n \<le> snd (spec_cluster m buf ts (t, n))
     \<and> snd (spec_cluster m buf ts (t, n)) < n + length ts"
proof (induction ts arbitrary: t n)
  case Nil
  then show ?case by simp
next
  case (Cons a ts)
  show ?case
  proof (cases ts)
    case Nil
    then show ?thesis by simp
  next
    case c: (Cons b us)
    have ne: "ts \<noteq> []" using c by simp
    show ?thesis
    proof (cases "spec_gap_minutes a b \<le> m")
      case True
      then show ?thesis
        using Cons.IH [OF ne, of n "fl (t + spec_gap_minutes a b)"] c by simp
    next
      case False
      then show ?thesis
        using Cons.IH [OF ne, of "n + 1" "fl (t + buf)"] c by simp
    qed
  qed
qed

text \<open>
  C1. The estimator is the algorithm of the specification with a gap threshold and a
  buffer of 120 minutes: the timestamps sorted ascending, one buffer and one session to
  start with when there is a commit, every consecutive gap of at most 120 minutes added,
  every larger gap counted as a new session with a further buffer; the hours are the
  minutes over 60 rounded to one decimal, the commit count is the length of the input, and
  the empty list gives 0, 0, 0. On examples: one commit gives 2.0 hours in one session;
  two commits 30 minutes apart give 2.5 hours in one session; two commits exactly 120
  minutes apart give 4.0 hours in one session; two commits 200 minutes apart, given in
  reverse order, give 4.0 hours in two sessions; two commits 9 minutes apart give 2.1
  hours (the float nearest to 2.1), since 129 / 60 is a float just below 2.15; two
  commits 15 minutes apart give 2.2 hours and two commits 45 minutes apart give 2.8
  hours, the ties 2.25 and 2.75 going to the even digit.
\<close>

theorem estimate_time_from_commits_is_spec:
  "estimate_time_from_commits cs =
     (case spec_session_estimate 120 120 (map timestamp cs) of
        (h, s, c) \<Rightarrow> \<lparr>estimated_hours = h, sessions = s, commits = c,
                      est_method = None, confidence = None\<rparr>)
   \<and> estimate_time_from_commits [] = session_result 0 0 0
   \<and> estimate_time_from_commits [commit_at 0] = session_result 2 1 1
   \<and> estimate_time_from_commits [commit_at 0, commit_at 1800000000]
       = session_result (5 / 2) 1 2
   \<and> estimate_time_from_commits [commit_at 0, commit_at 7200000000]
       = session_result 4 1 2
   \<and> estimate_time_from_commits [commit_at 12000000000, commit_at 0]
       = session_result 4 2 2
   \<and> estimate_time_from_commits [commit_at 0, commit_at 540000000]
       = session_result (4728779608739021 / 2251799813685248) 1 2
   \<and> estimate_time_from_commits [commit_at 0, commit_at 900000000]
       = session_result (2476979795053773 / 1125899906842624) 1 2
   \<and> estimate_time_from_commits [commit_at 0, commit_at 2700000000]
       = session_result (3152519739159347 / 1125899906842624) 1 2"
proof -
  have general: "estimate_time_from_commits cs =
     (case spec_session_estimate 120 120 (map timestamp cs) of
        (h, s, c) \<Rightarrow> \<lparr>estimated_hours = h, sessions = s, commits = c,
                      est_method = None, confidence = None\<rparr>)"
    unfolding estimate_time_from_commits_sorted spec_session_estimate_def Let_def
    by (simp add: py_round_one fdiv_def MAX_COMMIT_DIFF_MINUTES_def
          FIRST_COMMIT_BUFFER_MINUTES_def)
  have empty: "estimate_time_from_commits [] = session_result 0 0 0"
    by (simp add: estimate_time_from_commits_def session_result_def)
  have single: "estimate_time_from_commits [commit_at 0] = session_result 2 1 1"
    by code_simp
  have half_hour: "estimate_time_from_commits [commit_at 0, commit_at 1800000000]
                   = session_result (5 / 2) 1 2"
    by code_simp
  have threshold: "estimate_time_from_commits [commit_at 0, commit_at 7200000000]
                   = session_result 4 1 2"
    by code_simp
  have two_sessions: "estimate_time_from_commits [commit_at 12000000000, commit_at 0]
                      = session_result 4 2 2"
    by code_simp
  have nine_minutes: "estimate_time_from_commits [commit_at 0, commit_at 540000000]
                      = session_result (4728779608739021 / 2251799813685248) 1 2"
    by code_simp
  have tie_down: "estimate_time_from_commits [commit_at 0, commit_at 900000000]
                  = session_result (2476979795053773 / 1125899906842624) 1 2"
    by code_simp
  have tie_up: "estimate_time_from_commits [commit_at 0, commit_at 2700000000]
                = session_result (3152519739159347 / 1125899906842624) 1 2"
    by code_simp
  show ?thesis
    using general empty single half_hour threshold two_sessions nine_minutes
      tie_down tie_up
    by (intro conjI)
qed

text \<open>
  C9. The estimate does not depend on the order of the commits: two lists that are
  permutations of each other get the same hours, sessions and commit count.
\<close>

theorem estimate_time_from_commits_permutation:
  assumes "mset cs = mset cs'"
  shows "estimate_time_from_commits cs = estimate_time_from_commits cs'"
proof -
  have "mset (map timestamp cs) = mset (map timestamp cs')"
    using assms by simp
  then have srt: "sort (map timestamp cs) = sort (map timestamp cs')"
    by (intro properties_for_sort) simp_all
  have len: "length cs = length cs'"
    using assms by (rule mset_eq_length)
  then have emp: "cs = [] \<longleftrightarrow> cs' = []"
    by auto
  show ?thesis
    by (simp only: estimate_time_from_commits_sorted srt len emp)
qed

theorem estimate_time_from_commits_permutation_witness:
  "mset [\<lparr>sha = ''a1'', timestamp = 0, author = ''ann'', message = ''one''\<rparr>,
         \<lparr>sha = ''b2'', timestamp = 1800000000, author = ''bob'', message = ''two''\<rparr>]
   = mset [\<lparr>sha = ''b2'', timestamp = 1800000000, author = ''bob'', message = ''two''\<rparr>,
           \<lparr>sha = ''a1'', timestamp = 0, author = ''ann'', message = ''one''\<rparr>]
   \<and> estimate_time_from_commits
       [\<lparr>sha = ''a1'', timestamp = 0, author = ''ann'', message = ''one''\<rparr>,
        \<lparr>sha = ''b2'', timestamp = 1800000000, author = ''bob'', message = ''two''\<rparr>]
     = estimate_time_from_commits
       [\<lparr>sha = ''b2'', timestamp = 1800000000, author = ''bob'', message = ''two''\<rparr>,
        \<lparr>sha = ''a1'', timestamp = 0, author = ''ann'', message = ''one''\<rparr>]"
proof -
  have h: "mset [\<lparr>sha = ''a1'', timestamp = 0, author = ''ann'', message = ''one''\<rparr>,
         \<lparr>sha = ''b2'', timestamp = 1800000000, author = ''bob'', message = ''two''\<rparr>]
   = mset [\<lparr>sha = ''b2'', timestamp = 1800000000, author = ''bob'', message = ''two''\<rparr>,
           \<lparr>sha = ''a1'', timestamp = 0, author = ''ann'', message = ''one''\<rparr>]"
    by (simp add: add_mset_commute)
  show ?thesis
    using h estimate_time_from_commits_permutation [OF h] by simp
qed

text \<open>
  C10. With at least one commit, the number of sessions is at least 1 and at most the
  number of commits.
\<close>

theorem estimate_time_from_commits_sessions_bounds:
  assumes "cs \<noteq> []"
  shows "1 \<le> sessions (estimate_time_from_commits cs)
         \<and> sessions (estimate_time_from_commits cs) \<le> length cs"
proof -
  have "map timestamp cs \<noteq> []"
    using assms by simp
  then have "sort (map timestamp cs) \<noteq> []"
    by (metis length_sort length_0_conv)
  from spec_cluster_sessions [OF this, of 1 MAX_COMMIT_DIFF_MINUTES
         FIRST_COMMIT_BUFFER_MINUTES FIRST_COMMIT_BUFFER_MINUTES]
  show ?thesis
    unfolding estimate_time_from_commits_sorted
    using assms by simp
qed

theorem estimate_time_from_commits_sessions_bounds_witness:
  "[\<lparr>sha = ''a1'', timestamp = 0, author = ''ann'', message = ''one''\<rparr>,
    \<lparr>sha = ''b2'', timestamp = 12000000000, author = ''bob'', message = ''two''\<rparr>] \<noteq> []
   \<and> 1 \<le> sessions (estimate_time_from_commits
        [\<lparr>sha = ''a1'', timestamp = 0, author = ''ann'', message = ''one''\<rparr>,
         \<lparr>sha = ''b2'', timestamp = 12000000000, author = ''bob'', message = ''two''\<rparr>])
   \<and> sessions (estimate_time_from_commits
        [\<lparr>sha = ''a1'', timestamp = 0, author = ''ann'', message = ''one''\<rparr>,
         \<lparr>sha = ''b2'', timestamp = 12000000000, author = ''bob'', message = ''two''\<rparr>])
      \<le> length
        [\<lparr>sha = ''a1'', timestamp = 0, author = ''ann'', message = ''one''\<rparr>,
         \<lparr>sha = ''b2'', timestamp = 12000000000, author = ''bob'', message = ''two''\<rparr>]"
  using estimate_time_from_commits_sessions_bounds
          [of "[\<lparr>sha = ''a1'', timestamp = 0, author = ''ann'', message = ''one''\<rparr>,
                \<lparr>sha = ''b2'', timestamp = 12000000000, author = ''bob'', message = ''two''\<rparr>]"]
  by simp

section \<open>Properties of the business-hours calculator\<close>

lemma div_day: "0 \<le> r \<Longrightarrow> r < US_PER_DAY \<Longrightarrow> (d * US_PER_DAY + r) div US_PER_DAY = d"
  by (simp add: US_PER_DAY_def div_pos_pos_trivial)

lemma next_midnight_eq:
  "next_midnight c = \<lparr>wall = (date c + 1) * US_PER_DAY, utcoffset = utcoffset c\<rparr>"
  by (simp add: next_midnight_def replace_time_def plus_one_day_def date_def US_PER_DAY_def)

lemma date_midnight [simp]: "date \<lparr>wall = d * US_PER_DAY, utcoffset = off\<rparr> = d"
  by (simp add: date_def US_PER_DAY_def)

lemma date_current_at [simp]: "date (current_at s d) = d"
  by (simp add: current_at_def)

lemma next_current_at:
  "date s \<le> d \<Longrightarrow> next_midnight (current_at s d) = current_at s (d + 1)"
  by (simp add: next_midnight_eq current_at_def)

text \<open>
  The loop runs the body once per calendar day, from the day of \<open>current_dt\<close> to the
  day of \<open>end_dt\<close>, in order.
\<close>

lemma business_loop_fold:
  "date s \<le> d \<Longrightarrow>
   business_loop s e (current_at s d) acc
   = fold (\<lambda>x tot. day_step s e (current_at s x) tot) [d..date e] acc"
proof (induction "nat (date e + 1 - d)" arbitrary: d acc)
  case 0
  then have "date e < d" by simp
  then show ?case
    by (subst business_loop.simps) simp
next
  case (Suc n)
  then have le: "d \<le> date e" by linarith
  have n: "n = nat (date e + 1 - (d + 1))" using Suc.hyps(2) by linarith
  have ds: "date s \<le> d + 1" using Suc.prems by simp
  have "business_loop s e (current_at s d) acc
        = business_loop s e (current_at s (d + 1)) (day_step s e (current_at s d) acc)"
    using le Suc.prems by (subst business_loop.simps) (simp add: next_current_at)
  also have "\<dots> = fold (\<lambda>x tot. day_step s e (current_at s x) tot) [d + 1..date e]
                      (day_step s e (current_at s d) acc)"
    by (rule Suc.hyps(1) [OF n ds])
  also have "\<dots> = fold (\<lambda>x tot. day_step s e (current_at s x) tot) [d..date e] acc"
  proof -
    have "[d..date e] = d # [d + 1..date e]"
      using le by (rule upto_rec1)
    then show ?thesis
      by (simp only: fold_simps)
  qed
  finally show ?case .
qed

lemma calculate_business_hours_fold:
  "\<not> dt_less e s \<Longrightarrow>
   calculate_business_hours (Some s) (Some e)
   = fold (\<lambda>x tot. day_step s e (current_at s x) tot) [date s..date e] 0"
  using business_loop_fold [of s "date s" e 0]
  by (simp add: calculate_business_hours_def current_at_def)

lemma weekend_day_step:
  "\<not> is_business_day c \<Longrightarrow>
   day_step s e c tot
   = (if date c = date s \<or> date c = date e then fadd tot 4 else tot)"
  by (simp add: day_step_def)

text \<open>
  C5. For \<open>start \<le> end\<close> the result is built up day by day from the date of \<open>start\<close> to
  the date of \<open>end\<close>, starting at 0. A weekend day leaves the tot as it is, so it
  contributes exactly 0, unless it is the date of \<open>start\<close> or of \<open>end\<close>, and then the
  flat 4 hours are added whatever the time of day.
\<close>

theorem weekend_day_flat_credit:
  assumes "\<not> dt_less e s"
  shows "calculate_business_hours (Some s) (Some e)
         = fold (\<lambda>d tot.
                   if is_business_day (current_at s d)
                   then day_step s e (current_at s d) tot
                   else if d = date s \<or> d = date e then fadd tot 4 else tot)
             [date s..date e] 0"
proof -
  have "(\<lambda>d tot. day_step s e (current_at s d) tot)
        = (\<lambda>d tot.
             if is_business_day (current_at s d)
             then day_step s e (current_at s d) tot
             else if d = date s \<or> d = date e then fadd tot 4 else tot)"
    by (intro ext) (simp add: weekend_day_step)
  then show ?thesis
    using calculate_business_hours_fold [OF assms] by simp
qed

theorem weekend_day_flat_credit_witness:
  "\<not> dt_less (local_time 738893 9 (- 8)) (local_time 738891 10 (- 8))
   \<and> calculate_business_hours (Some (local_time 738891 10 (- 8)))
        (Some (local_time 738893 9 (- 8)))
     = fold (\<lambda>d tot.
               if is_business_day (current_at (local_time 738891 10 (- 8)) d)
               then day_step (local_time 738891 10 (- 8)) (local_time 738893 9 (- 8))
                      (current_at (local_time 738891 10 (- 8)) d) tot
               else if d = date (local_time 738891 10 (- 8))
                       \<or> d = date (local_time 738893 9 (- 8))
                    then fadd tot 4 else tot)
         [date (local_time 738891 10 (- 8))..date (local_time 738893 9 (- 8))] 0"
proof -
  have h: "\<not> dt_less (local_time 738893 9 (- 8)) (local_time 738891 10 (- 8))"
    by (simp add: dt_less_def instant_def local_time_def US_PER_DAY_def US_PER_HOUR_def)
  show ?thesis
    using h weekend_day_flat_credit [OF h] by simp
qed

lemma four_hours: "fadd 0 4 = 4"
  by code_simp

lemma same_instant_day_step:
  "day_step t t t 0 = (if is_business_day t then 0 else 4)"
  by (simp add: day_step_def Let_def dt_max_def dt_min_def dt_less_def four_hours)

text \<open>
  C4, as the code has it. A missing argument gives 0. For \<open>start = end = t\<close> the result
  is 0 when \<open>t\<close> is on a business day; when \<open>t\<close> is on a Saturday or Sunday, its day
  is the date of both arguments and gets the flat weekend credit, so the result is 4.
\<close>

theorem degenerate_business_hours:
  "calculate_business_hours None e = 0
   \<and> calculate_business_hours s None = 0
   \<and> calculate_business_hours (Some t) (Some t) = (if is_business_day t then 0 else 4)"
proof -
  have "\<not> dt_less t t"
    by (simp add: dt_less_def)
  from calculate_business_hours_fold [OF this]
  have "calculate_business_hours (Some t) (Some t) = day_step t t t 0"
    by (simp add: current_at_def)
  then show ?thesis
    by (simp add: calculate_business_hours_def same_instant_day_step split: option.split)
qed

text \<open>
  Saturday 2024-01-06 (ordinal 738891), 12:00 PST, taken as both start and end: the
  result is 4, not 0.
\<close>

theorem same_instant_weekend_counterexample:
  "calculate_business_hours (Some (local_time 738891 12 (- 8)))
     (Some (local_time 738891 12 (- 8))) \<noteq> 0"
  by code_simp

lemma date_local_time:
  "0 \<le> h \<Longrightarrow> h < 24 \<Longrightarrow> date (local_time d h off) = d"
  unfolding date_def local_time_def
  by (simp add: div_day US_PER_DAY_def US_PER_HOUR_def)

lemma hour_local_time:
  "0 \<le> h \<Longrightarrow> h < 24 \<Longrightarrow> hour (local_time d h off) = h"
  unfolding hour_def local_time_def
  by (simp add: US_PER_DAY_def US_PER_HOUR_def)

lemma upto_four: "[d..d + 3] = [d, d + 1, d + 2, d + 3]"
  by (simp add: upto_rec1)

lemma friday_next_days:
  assumes "(d + 6) mod 7 = (4::int)"
  shows "\<not> (d + 1 + 6) mod 7 < 5" "\<not> (d + 2 + 6) mod 7 < 5" "(d + 3 + 6) mod 7 < 5"
  using assms by presburger+

lemma is_business_day_midnight:
  "is_business_day \<lparr>wall = x * US_PER_DAY, utcoffset = off\<rparr> \<longleftrightarrow> (x + 6) mod 7 < 5"
  by (simp only: is_business_day_def weekday_def date_midnight)

text \<open>One hour, as \<open>3600\<close> seconds over \<open>3600\<close>, added to a tot of 0 and of 1.\<close>

lemma first_hour: "fadd 0 (fdiv (fdiv 3600000000 1000000) 3600) = 1"
  by code_simp

lemma second_hour: "fadd 1 (fdiv (fdiv 3600000000 1000000) 3600) = 2"
  by code_simp

text \<open>
  C6, as the code has it. From 18:00 on a Friday to 08:00 on the Monday after, both read
  in the same zone: 18:00 is before 19:00, so Friday's window ends at 19:00 and Friday
  gives one hour; Saturday and Sunday are not boundary days and give nothing; Monday
  gives the hour from 07:00 to 08:00. The sum is 2.
\<close>

theorem friday_evening_to_monday_morning:
  assumes "weekday (local_time d 18 off) = 4"
  shows "calculate_business_hours (Some (local_time d 18 off))
           (Some (local_time (d + 3) 8 off)) = 2"
proof -
  let ?s = "local_time d 18 off" and ?e = "local_time (d + 3) 8 off"
  have ds: "date ?s = d" and de: "date ?e = d + 3"
    by (simp_all add: date_local_time)
  have fri: "(d + 6) mod 7 = 4"
    using assms by (simp add: weekday_def ds)
  note nxt = friday_next_days [OF fri]
  have ord: "\<not> dt_less ?e ?s"
    by (simp add: dt_less_def instant_def local_time_def US_PER_DAY_def US_PER_HOUR_def)
  have friday: "day_step ?s ?e (current_at ?s d) 0
                = fadd 0 (fdiv (fdiv 3600000000 1000000) 3600)"
    using fri
    by (simp add: current_at_def ds de day_step_def is_business_day_def weekday_def
          get_business_hours_in_day_def hour_local_time Let_def replace_time_def
          dt_max_def dt_min_def dt_less_def instant_def)
       (simp add: local_time_def US_PER_DAY_def US_PER_HOUR_def)
  have saturday: "day_step ?s ?e (current_at ?s (d + 1)) tot = tot" for tot
  proof -
    have "current_at ?s (d + 1) = \<lparr>wall = (d + 1) * US_PER_DAY, utcoffset = utcoffset ?s\<rparr>"
      by (simp add: current_at_def ds)
    then have "\<not> is_business_day (current_at ?s (d + 1))"
      using nxt(1) by (simp add: is_business_day_midnight)
    then show ?thesis
      by (simp add: weekend_day_step ds de)
  qed
  have sunday: "day_step ?s ?e (current_at ?s (d + 2)) tot = tot" for tot
  proof -
    have "current_at ?s (d + 2) = \<lparr>wall = (d + 2) * US_PER_DAY, utcoffset = utcoffset ?s\<rparr>"
      by (simp add: current_at_def ds)
    then have "\<not> is_business_day (current_at ?s (d + 2))"
      using nxt(2) by (simp add: is_business_day_midnight)
    then show ?thesis
      by (simp add: weekend_day_step ds de)
  qed
  have c3: "current_at ?s (d + 3) = \<lparr>wall = (d + 3) * US_PER_DAY, utcoffset = utcoffset ?s\<rparr>"
    by (simp add: current_at_def ds)
  then have mon: "is_business_day (current_at ?s (d + 3))"
    using nxt(3) by (simp add: is_business_day_midnight)
  have h0: "hour \<lparr>wall = (d + 3) * US_PER_DAY, utcoffset = utcoffset ?s\<rparr> = 0"
    by (simp add: hour_def US_PER_DAY_def US_PER_HOUR_def)
  have monday: "day_step ?s ?e (current_at ?s (d + 3)) 1
                = fadd 1 (fdiv (fdiv 3600000000 1000000) 3600)"
    unfolding day_step_def
    using mon
    by (simp add: current_at_def ds de
          get_business_hours_in_day_def h0 Let_def replace_time_def
          dt_max_def dt_min_def dt_less_def instant_def)
       (simp add: local_time_def US_PER_DAY_def US_PER_HOUR_def)
  show ?thesis
    using calculate_business_hours_fold [OF ord]
    by (simp add: ds de upto_four friday first_hour saturday sunday monday second_hour)
qed

theorem friday_evening_to_monday_morning_witness:
  "weekday (local_time 738890 18 (- 8)) = 4
   \<and> calculate_business_hours (Some (local_time 738890 18 (- 8)))
        (Some (local_time (738890 + 3) 8 (- 8))) = 2"
proof -
  have h: "weekday (local_time 738890 18 (- 8)) = 4"
    by (simp add: weekday_def date_local_time)
  show ?thesis
    using h friday_evening_to_monday_morning [OF h] by simp
qed

text \<open>
  Friday 2024-01-05 (ordinal 738890) 18:00 PST to Monday 2024-01-08 08:00 PST: the
  result is not 7.
\<close>

theorem friday_evening_to_monday_morning_counterexample:
  "calculate_business_hours (Some (local_time 738890 18 (- 8)))
     (Some (local_time 738893 8 (- 8))) \<noteq> 7"
  by code_simp

text \<open>
  C2 at Monday 2024-01-01 (ordinal 738886) 08:00 PST to Tuesday 2024-01-02 21:00 PST.
  The end falls after 19:00 on a business day. Tuesday is worked on with \<open>current_dt\<close>
  at midnight, so its window ends at 19:00: Tuesday gives the 12 hours from 07:00 to
  19:00, not the 14 hours to 21:00, and the tot is 11 + 12 = 23.
\<close>

theorem late_end_day_not_extended:
  "is_business_day (local_time 738887 21 (- 8))
   \<and> hour (local_time 738887 21 (- 8)) = 21
   \<and> day_step (local_time 738886 8 (- 8)) (local_time 738887 21 (- 8))
        (current_at (local_time 738886 8 (- 8)) 738887) 0 = 12
   \<and> calculate_business_hours (Some (local_time 738886 8 (- 8)))
        (Some (local_time 738887 21 (- 8))) = 23"
  by code_simp

section \<open>Properties of the timeline analyzer\<close>

text \<open>
  What the analyzer reports for a metric: nothing when the anchor is absent, and
  nothing as well when the anchor is present and the computed hours are 0.
\<close>

lemma reported_metric:
  "round_if_true (time_to iss anchor) =
     (case anchor of None \<Rightarrow> None
      | Some r \<Rightarrow>
          if calculate_business_hours (created_at iss) (Some r) = 0 then None
          else Some (py_round (calculate_business_hours (created_at iss) (Some r)) 2))"
  by (simp add: round_if_true_def time_to_def split: option.split)

text \<open>
  A comment by bob 18 seconds after the issue was opened, at 10:00:18 on a Monday: the
  hours are the float next to 0.005, which lies above it, and the report rounds them to
  0.01.
\<close>

lemma eighteen_seconds_reported:
  "time_to_first_response_hours
     (analyze_issue_timing
        \<lparr>created_at = Some (local_time 738886 10 (- 8)),
         closed_at = Some (local_time 738886 15 (- 8)),
         user_login = Some ''alice''\<rparr>
        [\<lparr>ev_event = Some ''commented'', ev_type = None,
          ev_created_at = Some ((local_time 738886 10 (- 8))
                                  \<lparr>wall := wall (local_time 738886 10 (- 8)) + 18000000\<rparr>),
          ev_actor_login = Some ''bob''\<rparr>]
        [])
   = Some (5764607523034235 / 576460752303423488)"
  by code_simp

text \<open>
  C3 at an issue that alice opened on Monday 2024-01-01 (ordinal 738886) at 10:00 PST,
  assigned in the same instant, with a comment by bob in the same instant. The scan
  finds both anchors, both computed metrics are 0, and both are reported as absent.
\<close>

theorem instant_response_reported_absent:
  "(let iss = \<lparr>created_at = Some (local_time 738886 10 (- 8)),
               closed_at = Some (local_time 738886 15 (- 8)),
               user_login = Some ''alice''\<rparr>;
        timeline =
          [\<lparr>ev_event = Some ''assigned'', ev_type = None,
            ev_created_at = Some (local_time 738886 10 (- 8)),
            ev_actor_login = Some ''alice''\<rparr>,
           \<lparr>ev_event = Some ''commented'', ev_type = None,
            ev_created_at = Some (local_time 738886 10 (- 8)),
            ev_actor_login = Some ''bob''\<rparr>];
        anchors = key_events iss (all_events timeline [])
    in fst anchors = Some (local_time 738886 10 (- 8))
       \<and> time_to iss (fst anchors) = Some 0
       \<and> time_to_first_response_hours (analyze_issue_timing iss timeline []) = None
       \<and> fst (snd anchors) = Some (local_time 738886 10 (- 8))
       \<and> time_to iss (fst (snd anchors)) = Some 0
       \<and> time_to_assignment_hours (analyze_issue_timing iss timeline []) = None)"
  by code_simp


section \<open>Properties of the metadata estimator\<close>

text \<open>The substring test of the source finds exactly the contiguous pieces.\<close>

lemma contains_sublist: "contains needle hay \<longleftrightarrow> sublist needle hay"
  by (induction hay) (simp_all add: sublist_Cons_right)

lemma base_hours_spec:
  "dict_get (dict_get DEFAULT_DEV_HOURS cat (dict_get DEFAULT_DEV_HOURS ''Maintenance'' []))
     cpx 6
   = spec_base_hours cat cpx"
proof -
  have m: "map_of DEFAULT_DEV_HOURS ''Maintenance''
           = Some [(''Small'', 3), (''Medium'', 5), (''Large'', 8)]"
    by (simp add: DEFAULT_DEV_HOURS_def)
  show ?thesis
    by (simp add: dict_get_def spec_base_hours_def m split: option.split)
qed

lemma title_multiplier_spec:
  "title_multiplier (lower ttl)
   = foldl (\<lambda>m rule. fl (m * snd (snd rule))) 1
       (filter (spec_rule_matches ttl) spec_keyword_rules)"
  by (simp add: title_multiplier_def spec_keyword_rules_def spec_rule_matches_def
        contains_sublist fmul_def Let_def)

text \<open>
  C7. The hours of the fallback estimate are the base hours of the table (the row of
  \<open>Maintenance\<close> for an unrecognised category, 6 for an unrecognised complexity) times
  the factor of every keyword rule that matches the lower-cased title, rounded to one
  decimal. For \<open>Bug_Fix\<close>, \<open>Small\<close>, \<open>Hotfix: fix login\<close> no rule matches (the title
  contains \<open>hotfix\<close>, so the 0.9 of \<open>fix\<close> stays out) and the hours are 4.0, while
  \<open>Fix login\<close> gets the 0.9 and 3.6 hours. Further examples, each with the float the
  code returns: \<open>Maintenance\<close>, \<open>Medium\<close>, \<open>Test Update\<close> gives 6.1 (5 times 1.1 times
  1.1); \<open>Feature\<close>, \<open>Large\<close>, \<open>Refactor the MVP\<close> gives 49.9 (32 times 1.2 times 1.3);
  the unknown category \<open>Chore\<close> with the unknown complexity \<open>Huge\<close> and the title
  \<open>Fix working build\<close> gives 3.8 (6 times 0.9 times 0.7); a pull request without any of
  the three keys gives 3.0.
\<close>

theorem estimate_time_from_metadata_is_spec:
  "estimated_hours (estimate_time_from_metadata p)
   = spec_metadata_hours
       (case category p of Some c \<Rightarrow> c | None \<Rightarrow> ''Maintenance'')
       (case complexity p of Some c \<Rightarrow> c | None \<Rightarrow> ''Small'')
       (case title p of Some s \<Rightarrow> s | None \<Rightarrow> [])
   \<and> title_multiplier (lower ''Hotfix: fix login'') = 1
   \<and> estimated_hours
       (estimate_time_from_metadata (pr_of ''Bug_Fix'' ''Small'' ''Hotfix: fix login'')) = 4
   \<and> estimated_hours
       (estimate_time_from_metadata (pr_of ''Bug_Fix'' ''Small'' ''Fix login''))
       = 8106479329266893 / 2251799813685248
   \<and> estimated_hours
       (estimate_time_from_metadata (pr_of ''Maintenance'' ''Medium'' ''Test Update''))
       = 3433994715870003 / 562949953421312
   \<and> estimated_hours
       (estimate_time_from_metadata (pr_of ''Feature'' ''Large'' ''Refactor the MVP''))
       = 7022800668930867 / 140737488355328
   \<and> estimated_hours
       (estimate_time_from_metadata (pr_of ''Chore'' ''Huge'' ''Fix working build''))
       = 4278419646001971 / 1125899906842624
   \<and> estimated_hours
       (estimate_time_from_metadata \<lparr>category = None, complexity = None, title = None\<rparr>)
       = 3"
proof -
  have general: "estimated_hours (estimate_time_from_metadata p)
     = spec_metadata_hours
         (case category p of Some c \<Rightarrow> c | None \<Rightarrow> ''Maintenance'')
         (case complexity p of Some c \<Rightarrow> c | None \<Rightarrow> ''Small'')
         (case title p of Some s \<Rightarrow> s | None \<Rightarrow> [])"
    by (simp add: estimate_time_from_metadata_def spec_metadata_hours_def Let_def
          base_hours_spec title_multiplier_spec py_round_one fmul_def)
  have hotfix_multiplier: "title_multiplier (lower ''Hotfix: fix login'') = 1"
    by code_simp
  have hotfix: "estimated_hours
      (estimate_time_from_metadata (pr_of ''Bug_Fix'' ''Small'' ''Hotfix: fix login'')) = 4"
    by code_simp
  have fix_login: "estimated_hours
      (estimate_time_from_metadata (pr_of ''Bug_Fix'' ''Small'' ''Fix login''))
      = 8106479329266893 / 2251799813685248"
    by code_simp
  have test_update: "estimated_hours
      (estimate_time_from_metadata (pr_of ''Maintenance'' ''Medium'' ''Test Update''))
      = 3433994715870003 / 562949953421312"
    by code_simp
  have refactor_mvp: "estimated_hours
      (estimate_time_from_metadata (pr_of ''Feature'' ''Large'' ''Refactor the MVP''))
      = 7022800668930867 / 140737488355328"
    by code_simp
  have defaults: "estimated_hours
      (estimate_time_from_metadata (pr_of ''Chore'' ''Huge'' ''Fix working build''))
      = 4278419646001971 / 1125899906842624"
    by code_simp
  have no_keys: "estimated_hours
      (estimate_time_from_metadata \<lparr>category = None, complexity = None, title = None\<rparr>)
      = 3"
    by code_simp
  show ?thesis
    using general hotfix_multiplier hotfix fix_login test_update refactor_mvp defaults no_keys
    by (intro conjI)
qed

text \<open>
  C8, as the code has it. Every result of the fallback estimator carries the method tag
  \<open>metadata_based\<close> and the confidence \<open>low\<close>.
\<close>

theorem estimate_time_from_metadata_tags:
  "est_method (estimate_time_from_metadata p) = Some ''metadata_based''
   \<and> confidence (estimate_time_from_metadata p) = Some ''low''"
  by (simp add: estimate_time_from_metadata_def Let_def)

text \<open>The method tag of a result is not the string \<open>metadata\<close>.\<close>

theorem estimate_time_from_metadata_tag_counterexample:
  "est_method
     (estimate_time_from_metadata
        \<lparr>category = Some ''Bug_Fix'', complexity = Some ''Small'',
         title = Some ''Hotfix: fix login''\<rparr>) \<noteq> Some ''metadata''"
  by (simp add: estimate_time_from_metadata_def Let_def)

end
